theory Spec2Isabelle
  imports Main "HOL-Library.Char_ord" "HOL-Library.List_Lexorder"
begin

section \<open>Python values and exceptions\<close>

text \<open>
  The Cost Explorer response and the content of the baseline file are JSON-like Python
  values: \<open>None\<close>, booleans, integers, strings, lists and dictionaries with string keys.
  A dictionary is an association list in insertion order; a lookup takes the first
  entry of a key. Strings are \<open>char list\<close>, one \<open>char\<close> per code point, so the
  modelled alphabet is the code points 0 to 255. Floating-point numbers are not modelled.
\<close>

datatype pyval =
    PNone
  | PBool bool
  | PInt int
  | PStr string
  | PList "pyval list"
  | PDict "(string \<times> pyval) list"

text \<open>
  The exceptions that the modelled code can raise. \<open>Unmodelled\<close> is not a Python
  exception: it marks a run that leaves the modelled fragment (a service name that is
  hashable but not a \<open>str\<close>, a JSON number with a fraction or exponent, a code point
  above 255), about which the model says nothing.
\<close>

datatype exn =
    KeyError
  | IndexError
  | TypeError
  | FileNotFoundError
  | JSONDecodeError
  | OSError
  | Unmodelled

text \<open>Truth value testing, as in \<open>if not cost_data\<close>.\<close>

fun truthy :: "pyval \<Rightarrow> bool" where
  "truthy PNone = False"
| "truthy (PBool b) = b"
| "truthy (PInt i) = (i \<noteq> 0)"
| "truthy (PStr s) = (s \<noteq> [])"
| "truthy (PList xs) = (xs \<noteq> [])"
| "truthy (PDict kvs) = (kvs \<noteq> [])"

text \<open>
  \<open>v[k]\<close> for a string key \<open>k\<close>: a dictionary without the key raises KeyError, every
  other value raises TypeError (not subscriptable, or indices must be integers).
\<close>

fun getitem_key :: "pyval \<Rightarrow> string \<Rightarrow> exn + pyval" where
  "getitem_key (PDict kvs) k = (case map_of kvs k of None \<Rightarrow> Inl KeyError | Some v \<Rightarrow> Inr v)"
| "getitem_key PNone k = Inl TypeError"
| "getitem_key (PBool b) k = Inl TypeError"
| "getitem_key (PInt i) k = Inl TypeError"
| "getitem_key (PStr s) k = Inl TypeError"
| "getitem_key (PList xs) k = Inl TypeError"

text \<open>
  \<open>v[0]\<close>: the first element of a list or string, IndexError when it is empty; a
  dictionary (whose keys are strings) has no key \<open>0\<close> and raises KeyError.
\<close>

fun getitem_0 :: "pyval \<Rightarrow> exn + pyval" where
  "getitem_0 (PList []) = Inl IndexError"
| "getitem_0 (PList (x # xs)) = Inr x"
| "getitem_0 (PStr []) = Inl IndexError"
| "getitem_0 (PStr (c # cs)) = Inr (PStr [c])"
| "getitem_0 (PDict kvs) = Inl KeyError"
| "getitem_0 PNone = Inl TypeError"
| "getitem_0 (PBool b) = Inl TypeError"
| "getitem_0 (PInt i) = Inl TypeError"

text \<open>
  The elements a \<open>for\<close> loop (or \<open>set(...)\<close>) visits: the items of a list, the keys
  of a dictionary, the characters of a string; anything else is not iterable.
\<close>

fun py_iter :: "pyval \<Rightarrow> exn + pyval list" where
  "py_iter (PList xs) = Inr xs"
| "py_iter (PDict kvs) = Inr (map (\<lambda>kv. PStr (fst kv)) kvs)"
| "py_iter (PStr s) = Inr (map (\<lambda>c. PStr [c]) s)"
| "py_iter PNone = Inl TypeError"
| "py_iter (PBool b) = Inl TypeError"
| "py_iter (PInt i) = Inl TypeError"

text \<open>
  \<open>services.add(x)\<close> on a \<open>Set[str]\<close>: a list or dictionary is unhashable
  (TypeError); \<open>None\<close>, a boolean or an integer would be added by Python, which takes
  the set out of its declared type \<open>Set[str]\<close>.
\<close>

fun set_add :: "pyval \<Rightarrow> string set \<Rightarrow> exn + string set" where
  "set_add (PStr s) S = Inr (insert s S)"
| "set_add (PList xs) S = Inl TypeError"
| "set_add (PDict kvs) S = Inl TypeError"
| "set_add PNone S = Inl Unmodelled"
| "set_add (PBool b) S = Inl Unmodelled"
| "set_add (PInt i) S = Inl Unmodelled"

section \<open>The world: baseline file and log\<close>

text \<open>
  One constructor per logging call of the source (the interpolated exception text is
  left out):
  \<^item> \<open>FetchFailed\<close>: \<open>logger.error("Error fetching cost and usage data: ...")\<close>
  \<^item> \<open>ParseFailed\<close>: \<open>logger.error("Error parsing response data: ...")\<close>
  \<^item> \<open>BaselineNotFound\<close>: \<open>logger.info("previous_services.json not found, ...")\<close>
  \<^item> \<open>BaselineCorrupt\<close>: \<open>logger.error("Error reading JSON data from ...")\<close>
  \<^item> \<open>SaveFailed\<close>: \<open>logger.error("Error saving services to ...")\<close>
  \<^item> \<open>NewDetected\<close>: \<open>logger.info("New services detected: ...")\<close>
  \<^item> \<open>NoNewDetected\<close>: \<open>logger.info("No new AWS services detected since the last check.")\<close>
\<close>

datatype log_event =
    FetchFailed
  | ParseFailed
  | BaselineNotFound
  | BaselineCorrupt
  | SaveFailed
  | NewDetected "string set"
  | NoNewDetected

text \<open>
  The state a call can change: the content of \<open>previous_services.json\<close> (\<open>None\<close> when
  the file does not exist) and the log records emitted so far.
\<close>

record world =
  baseline_file :: "string option"
  log :: "log_event list"

definition emit :: "log_event \<Rightarrow> world \<Rightarrow> world" where
  "emit ev w = w\<lparr>log := log w @ [ev]\<rparr>"

section \<open>Service extraction\<close>

text \<open>The loop body's first statement: \<open>service_name = group['Keys'][0]\<close>.\<close>

definition service_name :: "pyval \<Rightarrow> exn + pyval" where
  "service_name grp =
     (case getitem_key grp ''Keys'' of
        Inl e \<Rightarrow> Inl e
      | Inr ks \<Rightarrow> getitem_0 ks)"

text \<open>
  The inner loop \<open>for group in result['Groups']\<close> over the groups still to visit.
  The result is the exception that stopped it, if any, and \<open>services\<close> as it is then.
\<close>

fun groups_loop :: "pyval list \<Rightarrow> string set \<Rightarrow> exn option \<times> string set" where
  "groups_loop [] services = (None, services)"
| "groups_loop (grp # rest) services =
     (case service_name grp of
        Inl e \<Rightarrow> (Some e, services)
      | Inr name \<Rightarrow>
          (case set_add name services of
             Inl e \<Rightarrow> (Some e, services)
           | Inr services' \<Rightarrow> groups_loop rest services'))"

text \<open>The outer loop \<open>for result in data['ResultsByTime']\<close>.\<close>

fun results_loop :: "pyval list \<Rightarrow> string set \<Rightarrow> exn option \<times> string set" where
  "results_loop [] services = (None, services)"
| "results_loop (result # rest) services =
     (case getitem_key result ''Groups'' of
        Inl e \<Rightarrow> (Some e, services)
      | Inr gv \<Rightarrow>
          (case py_iter gv of
             Inl e \<Rightarrow> (Some e, services)
           | Inr groups \<Rightarrow>
               (case groups_loop groups services of
                  (Some e, services') \<Rightarrow> (Some e, services')
                | (None, services') \<Rightarrow> results_loop rest services')))"

text \<open>The body of the \<open>try\<close>, started with \<open>services = set()\<close>.\<close>

definition try_body :: "pyval \<Rightarrow> exn option \<times> string set" where
  "try_body data =
     (case getitem_key data ''ResultsByTime'' of
        Inl e \<Rightarrow> (Some e, {})
      | Inr rv \<Rightarrow>
          (case py_iter rv of
             Inl e \<Rightarrow> (Some e, {})
           | Inr results \<Rightarrow> results_loop results {}))"

text \<open>
  \<open>except KeyError\<close> logs and falls through to \<open>return services\<close>; any other
  exception leaves the function.
\<close>

definition extract_services :: "pyval \<Rightarrow> world \<Rightarrow> (exn + string set) \<times> world" where
  "extract_services data w =
     (case try_body data of
        (None, services) \<Rightarrow> (Inr services, w)
      | (Some e, services) \<Rightarrow>
          if e = KeyError then (Inr services, emit ParseFailed w)
          else (Inl e, w))"

section \<open>Set comparison\<close>

definition compare_services :: "string set \<Rightarrow> string set \<Rightarrow> string set" where
  "compare_services last_month_services current_month_services =
     current_month_services - last_month_services"

section \<open>The JSON text of the baseline file\<close>

text \<open>\<open>sep.join(xs)\<close>.\<close>

fun join :: "string \<Rightarrow> string list \<Rightarrow> string" where
  "join sep [] = []"
| "join sep [x] = x"
| "join sep (x # y # ys) = x @ sep @ join sep (y # ys)"

subsection \<open>Encoding: json.dump of a list of strings\<close>

text \<open>
  \<open>json.dump\<close> with its defaults (\<open>ensure_ascii=True\<close>, separators \<open>", "\<close>):
  inside a string, the quote, the backslash and the control characters with a short
  escape are written as two characters, a printable ASCII character as itself, and any
  other character as \<open>\u00XX\<close> with lower-case hexadecimal digits.
\<close>

definition hex_digit :: "nat \<Rightarrow> char" where
  "hex_digit n = (if n < 10 then char_of (48 + n) else char_of (87 + n))"

definition escape_char :: "char \<Rightarrow> string" where
  "escape_char c =
     (if c = CHR 0x22 then [CHR 0x5C, CHR 0x22]
      else if c = CHR 0x5C then [CHR 0x5C, CHR 0x5C]
      else if c = CHR 0x0A then [CHR 0x5C, CHR ''n'']
      else if c = CHR 0x0D then [CHR 0x5C, CHR ''r'']
      else if c = CHR 0x09 then [CHR 0x5C, CHR ''t'']
      else if c = CHR 0x08 then [CHR 0x5C, CHR ''b'']
      else if c = CHR 0x0C then [CHR 0x5C, CHR ''f'']
      else if 0x20 \<le> (of_char c :: nat) \<and> (of_char c :: nat) \<le> 0x7E then [c]
      else [CHR 0x5C, CHR ''u'', CHR ''0'', CHR ''0'',
            hex_digit (of_char c div 16), hex_digit (of_char c mod 16)])"

definition encode_str :: "string \<Rightarrow> string" where
  "encode_str s = CHR 0x22 # concat (map escape_char s) @ [CHR 0x22]"

definition json_dumps :: "string list \<Rightarrow> string" where
  "json_dumps xs = ''['' @ join '', '' (map encode_str xs) @ '']''"

subsection \<open>Decoding: json.load\<close>

definition is_ws :: "char \<Rightarrow> bool" where
  "is_ws c = (c = CHR 0x20 \<or> c = CHR 0x09 \<or> c = CHR 0x0A \<or> c = CHR 0x0D)"

definition skip_ws :: "string \<Rightarrow> string" where
  "skip_ws s = dropWhile is_ws s"

definition is_digit :: "char \<Rightarrow> bool" where
  "is_digit c = (48 \<le> (of_char c :: nat) \<and> (of_char c :: nat) \<le> 57)"

definition hex_val :: "char \<Rightarrow> nat option" where
  "hex_val c =
     (let k = of_char c :: nat in
      if 48 \<le> k \<and> k \<le> 57 then Some (k - 48)
      else if 97 \<le> k \<and> k \<le> 102 then Some (k - 87)
      else if 65 \<le> k \<and> k \<le> 70 then Some (k - 55)
      else None)"

definition hex4 :: "char \<Rightarrow> char \<Rightarrow> char \<Rightarrow> char \<Rightarrow> nat option" where
  "hex4 a b c d =
     (case (hex_val a, hex_val b, hex_val c, hex_val d) of
        (Some w, Some x, Some y, Some z) \<Rightarrow> Some (((w * 16 + x) * 16 + y) * 16 + z)
      | _ \<Rightarrow> None)"

text \<open>The character after a backslash, other than \<open>u\<close>.\<close>

definition unescape :: "char \<Rightarrow> char option" where
  "unescape e =
     (if e = CHR 0x22 then Some (CHR 0x22)
      else if e = CHR 0x5C then Some (CHR 0x5C)
      else if e = CHR ''/'' then Some (CHR ''/'')
      else if e = CHR ''b'' then Some (CHR 0x08)
      else if e = CHR ''f'' then Some (CHR 0x0C)
      else if e = CHR ''n'' then Some (CHR 0x0A)
      else if e = CHR ''r'' then Some (CHR 0x0D)
      else if e = CHR ''t'' then Some (CHR 0x09)
      else None)"

definition cons_char :: "char \<Rightarrow> exn + string \<times> string \<Rightarrow> exn + string \<times> string" where
  "cons_char c res = (case res of Inl e \<Rightarrow> Inl e | Inr (s, rest) \<Rightarrow> Inr (c # s, rest))"

text \<open>
  The text after an opening quote, up to the closing quote: the decoded string and
  the text that follows. An unterminated string, a bad escape and a raw control
  character are decode errors; an escape \<open>\uXXXX\<close> above 255 is outside the
  modelled alphabet.
\<close>

fun scanstring :: "string \<Rightarrow> exn + string \<times> string" where
  "scanstring [] = Inl JSONDecodeError"
| "scanstring (c # cs) =
     (if c = CHR 0x22 then Inr ([], cs)
      else if c = CHR 0x5C then
        (case cs of
           [] \<Rightarrow> Inl JSONDecodeError
         | e # cs1 \<Rightarrow>
             if e = CHR ''u'' then
               (case cs1 of
                  h1 # h2 # h3 # h4 # cs2 \<Rightarrow>
                    (case hex4 h1 h2 h3 h4 of
                       None \<Rightarrow> Inl JSONDecodeError
                     | Some n \<Rightarrow>
                         if n < 256 then cons_char (char_of n) (scanstring cs2)
                         else Inl Unmodelled)
                | _ \<Rightarrow> Inl JSONDecodeError)
             else
               (case unescape e of
                  None \<Rightarrow> Inl JSONDecodeError
                | Some ch \<Rightarrow> cons_char ch (scanstring cs1)))
      else if (of_char c :: nat) < 0x20 then Inl JSONDecodeError
      else cons_char c (scanstring cs))"

fun strip_prefix :: "string \<Rightarrow> string \<Rightarrow> string option" where
  "strip_prefix [] s = Some s"
| "strip_prefix (p # ps) [] = None"
| "strip_prefix (p # ps) (c # cs) = (if p = c then strip_prefix ps cs else None)"

definition starts_with :: "string \<Rightarrow> string \<Rightarrow> bool" where
  "starts_with p s = (case strip_prefix p s of None \<Rightarrow> False | Some r \<Rightarrow> True)"

definition digits_value :: "string \<Rightarrow> int" where
  "digits_value ds = foldl (\<lambda>acc d. 10 * acc + (int (of_char d) - 48)) 0 ds"

definition exponent_at :: "string \<Rightarrow> bool" where
  "exponent_at s =
     (case s of
        e # d # ds \<Rightarrow>
          (e = CHR ''e'' \<or> e = CHR ''E'') \<and>
          (is_digit d \<or>
           ((d = CHR ''+'' \<or> d = CHR ''-'') \<and> (case ds of [] \<Rightarrow> False | d2 # _ \<Rightarrow> is_digit d2)))
      | _ \<Rightarrow> False)"

definition fraction_at :: "string \<Rightarrow> bool" where
  "fraction_at s = (case s of p # d # ds \<Rightarrow> p = CHR ''.'' \<and> is_digit d | _ \<Rightarrow> False)"

text \<open>
  A number at the start of the text: an optional minus sign, then \<open>0\<close> or a digit
  sequence without leading zero. \<open>None\<close> when there is no number. A fraction or an
  exponent makes it a float, which is not modelled.
\<close>

definition scan_number :: "string \<Rightarrow> (exn + pyval \<times> string) option" where
  "scan_number s =
     (let neg = (case s of [] \<Rightarrow> False | c # _ \<Rightarrow> c = CHR ''-'');
          s1 = (if neg then tl s else s)
      in case s1 of
           [] \<Rightarrow> None
         | d # ds \<Rightarrow>
             if \<not> is_digit d then None
             else
               let digits = (if d = CHR ''0'' then [d] else d # takeWhile is_digit ds);
                   rest = (if d = CHR ''0'' then ds else dropWhile is_digit ds)
               in if fraction_at rest \<or> exponent_at rest then Some (Inl Unmodelled)
                  else Some (Inr (PInt (if neg then - digits_value digits
                                        else digits_value digits), rest)))"

text \<open>Storing a key in a dictionary: a key already present keeps its place.\<close>

fun dict_set :: "(string \<times> pyval) list \<Rightarrow> string \<Rightarrow> pyval \<Rightarrow> (string \<times> pyval) list" where
  "dict_set [] k v = [(k, v)]"
| "dict_set (kv # kvs) k v = (if fst kv = k then (k, v) # kvs else kv # dict_set kvs k v)"

definition dict_of_pairs :: "(string \<times> pyval) list \<Rightarrow> (string \<times> pyval) list" where
  "dict_of_pairs kvs = foldl (\<lambda>d kv. dict_set d (fst kv) (snd kv)) [] kvs"

text \<open>The values that are neither a string, an object nor an array.\<close>

definition scan_literal :: "string \<Rightarrow> exn + pyval \<times> string" where
  "scan_literal s =
     (case strip_prefix ''null'' s of
        Some r \<Rightarrow> Inr (PNone, r)
      | None \<Rightarrow>
          (case strip_prefix ''true'' s of
             Some r \<Rightarrow> Inr (PBool True, r)
           | None \<Rightarrow>
               (case strip_prefix ''false'' s of
                  Some r \<Rightarrow> Inr (PBool False, r)
                | None \<Rightarrow>
                    (case scan_number s of
                       Some res \<Rightarrow> res
                     | None \<Rightarrow>
                         if starts_with ''NaN'' s \<or> starts_with ''Infinity'' s
                            \<or> starts_with ''-Infinity'' s
                         then Inl Unmodelled
                         else Inl JSONDecodeError))))"

text \<open>
  The recursive-descent decoder. \<open>scan_once\<close> reads one value; \<open>parse_array\<close>
  reads the items of a non-empty array, starting at an item; \<open>parse_object\<close> reads
  the members of a non-empty object, starting after the opening quote of a key. The
  first argument bounds the depth of the nested calls; \<open>json_loads\<close> starts with
  more than twice the length of the text. The limits of the interpreter (recursion
  depth, length of an integer literal) are not modelled. \<open>Unmodelled\<close> is reported
  where the decoder meets a float or a wide escape, whatever follows in the text.
\<close>

fun scan_once :: "nat \<Rightarrow> string \<Rightarrow> exn + pyval \<times> string"
  and parse_array :: "nat \<Rightarrow> string \<Rightarrow> exn + pyval list \<times> string"
  and parse_object :: "nat \<Rightarrow> string \<Rightarrow> exn + (string \<times> pyval) list \<times> string"
where
  "scan_once 0 s = Inl Unmodelled"
| "scan_once (Suc n) [] = Inl JSONDecodeError"
| "scan_once (Suc n) (c # cs) =
     (if c = CHR 0x22 then
        (case scanstring cs of Inl e \<Rightarrow> Inl e | Inr (str, r) \<Rightarrow> Inr (PStr str, r))
      else if c = CHR ''{'' then
        (case skip_ws cs of
           [] \<Rightarrow> Inl JSONDecodeError
         | d # r \<Rightarrow>
             if d = CHR ''}'' then Inr (PDict [], r)
             else if d = CHR 0x22 then
               (case parse_object n r of
                  Inl e \<Rightarrow> Inl e
                | Inr (kvs, r1) \<Rightarrow> Inr (PDict (dict_of_pairs kvs), r1))
             else Inl JSONDecodeError)
      else if c = CHR ''['' then
        (case skip_ws cs of
           [] \<Rightarrow> Inl JSONDecodeError
         | d # r \<Rightarrow>
             if d = CHR '']'' then Inr (PList [], r)
             else
               (case parse_array n (d # r) of
                  Inl e \<Rightarrow> Inl e
                | Inr (vs, r1) \<Rightarrow> Inr (PList vs, r1)))
      else scan_literal (c # cs))"
| "parse_array 0 s = Inl Unmodelled"
| "parse_array (Suc n) s =
     (case scan_once n s of
        Inl e \<Rightarrow> Inl e
      | Inr (v, r) \<Rightarrow>
          (case skip_ws r of
             [] \<Rightarrow> Inl JSONDecodeError
           | d # r1 \<Rightarrow>
               if d = CHR '']'' then Inr ([v], r1)
               else if d = CHR '','' then
                 (case parse_array n (skip_ws r1) of
                    Inl e \<Rightarrow> Inl e
                  | Inr (vs, r2) \<Rightarrow> Inr (v # vs, r2))
               else Inl JSONDecodeError))"
| "parse_object 0 s = Inl Unmodelled"
| "parse_object (Suc n) s =
     (case scanstring s of
        Inl e \<Rightarrow> Inl e
      | Inr (key, r) \<Rightarrow>
          (case skip_ws r of
             [] \<Rightarrow> Inl JSONDecodeError
           | d # r1 \<Rightarrow>
               if d \<noteq> CHR '':'' then Inl JSONDecodeError
               else
                 (case scan_once n (skip_ws r1) of
                    Inl e \<Rightarrow> Inl e
                  | Inr (v, r2) \<Rightarrow>
                      (case skip_ws r2 of
                         [] \<Rightarrow> Inl JSONDecodeError
                       | d2 # r3 \<Rightarrow>
                           if d2 = CHR ''}'' then Inr ([(key, v)], r3)
                           else if d2 = CHR '','' then
                             (case skip_ws r3 of
                                [] \<Rightarrow> Inl JSONDecodeError
                              | q # r4 \<Rightarrow>
                                  if q = CHR 0x22 then
                                    (case parse_object n r4 of
                                       Inl e \<Rightarrow> Inl e
                                     | Inr (kvs, r5) \<Rightarrow> Inr ((key, v) # kvs, r5))
                                  else Inl JSONDecodeError)
                           else Inl JSONDecodeError))))"

text \<open>One value, surrounded by optional white space, and nothing else.\<close>

definition json_loads :: "string \<Rightarrow> exn + pyval" where
  "json_loads s =
     (case scan_once (Suc (2 * length s)) (skip_ws s) of
        Inl e \<Rightarrow> Inl e
      | Inr (v, r) \<Rightarrow> if skip_ws r = [] then Inr v else Inl JSONDecodeError)"

section \<open>The environment of a call\<close>

text \<open>What \<open>client.get_cost_and_usage(...)\<close> does: it raises, or returns a response.\<close>

datatype api_outcome = ApiRaises | ApiReturns pyval

text \<open>
  What happens when the baseline file is written: the write goes through; or
  \<open>open(..., 'w')\<close> fails and the file is untouched; or the file is opened (and so
  truncated) and the write fails after some characters.
\<close>

datatype write_fault = NoFault | OpenFails | WriteFails nat

text \<open>
  \<^item> \<open>client_call\<close>: the Cost Explorer client, given the start and end date;
  \<^item> \<open>window\<close>: the two dates that lines 78 to 84 compute from the clock
    (today minus 180 days, and today, as \<open>YYYY-MM-DD\<close>);
  \<^item> \<open>set_order\<close>: the order in which Python iterates a set, which the language
    leaves open;
  \<^item> \<open>write_fault\<close>: the fate of the write of the baseline file.
\<close>

record env =
  client_call :: "string \<Rightarrow> string \<Rightarrow> api_outcome"
  window :: "string \<times> string"
  set_order :: "string set \<Rightarrow> string list"
  write_fault :: write_fault


section \<open>Billing query\<close>

definition get_cost_and_usage :: "env \<Rightarrow> string \<Rightarrow> string \<Rightarrow> world \<Rightarrow> pyval \<times> world" where
  "get_cost_and_usage en start_date end_date w =
     (case client_call en start_date end_date of
        ApiReturns response \<Rightarrow> (response, w)
      | ApiRaises \<Rightarrow> (PNone, emit FetchFailed w))"

section \<open>Baseline store\<close>

text \<open>\<open>set(items)\<close>, adding the items one by one.\<close>

fun set_of_items :: "pyval list \<Rightarrow> string set \<Rightarrow> exn + string set" where
  "set_of_items [] S = Inr S"
| "set_of_items (x # xs) S =
     (case set_add x S of
        Inl e \<Rightarrow> Inl e
      | Inr S' \<Rightarrow> set_of_items xs S')"

definition py_set :: "pyval \<Rightarrow> exn + string set" where
  "py_set v = (case py_iter v of Inl e \<Rightarrow> Inl e | Inr items \<Rightarrow> set_of_items items {})"

text \<open>
  The body of the \<open>try\<close> in \<open>load_previous_services\<close>: open the file, decode
  its text, build the set. The file, when it exists, is readable text.
\<close>

definition read_baseline :: "world \<Rightarrow> exn + string set" where
  "read_baseline w =
     (case baseline_file w of
        None \<Rightarrow> Inl FileNotFoundError
      | Some text \<Rightarrow>
          (case json_loads text of
             Inl e \<Rightarrow> Inl e
           | Inr v \<Rightarrow> py_set v))"

text \<open>Only FileNotFoundError and JSONDecodeError are caught.\<close>

definition load_previous_services :: "world \<Rightarrow> (exn + string set) \<times> world" where
  "load_previous_services w =
     (case read_baseline w of
        Inr services \<Rightarrow> (Inr services, w)
      | Inl e \<Rightarrow>
          if e = FileNotFoundError then (Inr {}, emit BaselineNotFound w)
          else if e = JSONDecodeError then (Inr {}, emit BaselineCorrupt w)
          else (Inl e, w))"

text \<open>
  The body of the \<open>try\<close> in \<open>save_current_services\<close>, writing the given text:
  \<open>open(..., 'w')\<close> and the write raise nothing but OSError.
\<close>

definition write_baseline :: "env \<Rightarrow> string \<Rightarrow> world \<Rightarrow> exn option \<times> world" where
  "write_baseline en text w =
     (case write_fault en of
        NoFault \<Rightarrow> (None, w\<lparr>baseline_file := Some text\<rparr>)
      | OpenFails \<Rightarrow> (Some OSError, w)
      | WriteFails k \<Rightarrow> (Some OSError, w\<lparr>baseline_file := Some (take k text)\<rparr>))"

text \<open>
  \<open>json.dump(list(services), f)\<close>; \<open>except IOError\<close> catches every OSError, logs
  it and returns.
\<close>

definition save_current_services :: "env \<Rightarrow> string set \<Rightarrow> world \<Rightarrow> world" where
  "save_current_services en services w =
     (case write_baseline en (json_dumps (set_order en services)) w of
        (None, w') \<Rightarrow> w'
      | (Some e, w') \<Rightarrow> emit SaveFailed w')"

section \<open>Orchestrator\<close>

text \<open>
  The result is the returned string, or the exception that leaves the function, and
  the world after the call. The parameter \<open>region\<close> is not used by the source.
  Lines 80 and 81 build the session and client again, as lines 14 and 15 did when the
  module was loaded; the local client is not used, and building it is taken to succeed.
\<close>

definition flag_new_services :: "env \<Rightarrow> string \<Rightarrow> world \<Rightarrow> (exn + string) \<times> world" where
  "flag_new_services en region w =
     (let (cost_data, w1) = get_cost_and_usage en (fst (window en)) (snd (window en)) w
      in if \<not> truthy cost_data then (Inr ''Error: Could not fetch AWS cost data'', w1)
         else
           (case extract_services cost_data w1 of
              (Inl e, w2) \<Rightarrow> (Inl e, w2)
            | (Inr current_month_services, w2) \<Rightarrow>
                if current_month_services = {}
                then (Inr ''No services found in the AWS cost data.'', w2)
                else
                  (case load_previous_services w2 of
                     (Inl e, w3) \<Rightarrow> (Inl e, w3)
                   | (Inr previous_services, w3) \<Rightarrow>
                       let new_services = compare_services previous_services current_month_services;
                           w4 = save_current_services en current_month_services w3
                       in if new_services \<noteq> {}
                          then (Inr (''New AWS services detected: ''
                                     @ join '', '' (set_order en new_services)),
                                emit (NewDetected new_services) w4)
                          else (Inr ''No new AWS services detected since last check.'',
                                emit NoNewDetected w4))))"

section \<open>Example inputs\<close>

text \<open>
  A Cost Explorer response with one time bucket holding the given groups, a group for
  a service name, and an environment with a given client outcome and write fault, in
  which sets are iterated in lexicographic order.
\<close>

definition group_of :: "string \<Rightarrow> pyval" where
  "group_of name =
     PDict [(''Keys'', PList [PStr name]),
            (''Metrics'', PDict [(''BlendedCost'',
               PDict [(''Amount'', PStr ''1.5''), (''Unit'', PStr ''USD'')])])]"

definition response_of :: "pyval list \<Rightarrow> pyval" where
  "response_of groups =
     PDict [(''GroupDefinitions'', PList []),
            (''ResultsByTime'',
               PList [PDict [(''Groups'', PList groups), (''Estimated'', PBool False)]])]"

definition env_of :: "api_outcome \<Rightarrow> write_fault \<Rightarrow> env" where
  "env_of outcome fault =
     \<lparr>client_call = (\<lambda>start_date end_date. outcome),
      window = (''2024-01-03'', ''2024-07-01''),
      set_order = sorted_list_of_set,
      write_fault = fault\<rparr>"

definition no_file :: world where
  "no_file = \<lparr>baseline_file = None, log = []\<rparr>"

definition file_with :: "string \<Rightarrow> world" where
  "file_with text = \<lparr>baseline_file = Some text, log = []\<rparr>"

section \<open>Properties\<close>

subsection \<open>What each step does to the world\<close>

lemma baseline_file_emit: "baseline_file (emit ev w) = baseline_file w"
  by (simp add: emit_def)

lemma get_cost_and_usage_baseline:
  "baseline_file (snd (get_cost_and_usage en s e w)) = baseline_file w"
  by (simp add: get_cost_and_usage_def baseline_file_emit split: api_outcome.splits)

lemma extract_services_world:
  "snd (extract_services data w) = w \<or> snd (extract_services data w) = emit ParseFailed w"
  by (simp add: extract_services_def split: prod.splits option.splits)

lemma extract_services_baseline:
  "baseline_file (snd (extract_services data w)) = baseline_file w"
  using extract_services_world [of data w] by (auto simp: baseline_file_emit)





subsection \<open>The query returns no data\<close>

text \<open>
  C1. If the billing query returns no data (\<open>get_cost_and_usage\<close> returns \<open>None\<close>),
  \<open>flag_new_services\<close> returns exactly "Error: Could not fetch AWS cost data" and
  the baseline file is as it was before the call: no write, and no file created if
  none existed.
\<close>

theorem no_data_error_and_baseline_unchanged:
  assumes "fst (get_cost_and_usage en (fst (window en)) (snd (window en)) w) = PNone"
  shows "fst (flag_new_services en region w) = Inr ''Error: Could not fetch AWS cost data''
       \<and> baseline_file (snd (flag_new_services en region w)) = baseline_file w"
proof -
  obtain v w1 where g: "get_cost_and_usage en (fst (window en)) (snd (window en)) w = (v, w1)"
    by (cases "get_cost_and_usage en (fst (window en)) (snd (window en)) w")
  with assms have v: "v = PNone" by simp
  have "baseline_file w1 = baseline_file w"
    using get_cost_and_usage_baseline [of en "fst (window en)" "snd (window en)" w] g by simp
  then show ?thesis
    using g v by (simp add: flag_new_services_def)
qed

theorem no_data_witness:
  "fst (flag_new_services (env_of ApiRaises NoFault) ''us-east-1'' no_file)
     = Inr ''Error: Could not fetch AWS cost data''
   \<and> baseline_file (snd (flag_new_services (env_of ApiRaises NoFault) ''us-east-1'' no_file))
     = None"
  using no_data_error_and_baseline_unchanged
    [of "env_of ApiRaises NoFault" no_file "''us-east-1''"]
  by (simp add: env_of_def no_file_def get_cost_and_usage_def)

text \<open>
  C10. If the billing call succeeds but returns a falsy value (an empty dictionary,
  for example), \<open>flag_new_services\<close> treats it as a failed query: it returns
  "Error: Could not fetch AWS cost data" and leaves the baseline (and the log) as they
  were, because the guard tests the truth value of the response.
\<close>

theorem falsy_response_is_error:
  assumes "client_call en (fst (window en)) (snd (window en)) = ApiReturns r"
    and "\<not> truthy r"
  shows "flag_new_services en region w = (Inr ''Error: Could not fetch AWS cost data'', w)"
  using assms by (simp add: flag_new_services_def get_cost_and_usage_def)

theorem falsy_response_witness:
  "flag_new_services (env_of (ApiReturns (PDict [])) NoFault) ''us-east-1''
     (file_with ''[]'')
   = (Inr ''Error: Could not fetch AWS cost data'', file_with ''[]'')"
  using falsy_response_is_error
    [of "env_of (ApiReturns (PDict [])) NoFault" "PDict []" "''us-east-1''" "file_with ''[]''"]
  by (simp add: env_of_def)

subsection \<open>The differ\<close>

text \<open>
  C3. For all sets of service identifiers A (previous) and B (current),
  \<open>compare_services A B\<close> is the set difference \<open>B - A\<close>, and
  \<open>compare_services A A\<close> is empty. The function is a total function of its two
  arguments alone: it takes no world and has no exceptional result.
\<close>

theorem compare_services_is_difference:
  "compare_services A B = B - A \<and> compare_services A A = {}"
  by (simp add: compare_services_def)

subsection \<open>Extraction\<close>







lemma extract_nothing: "fst (extract_services (response_of []) w) = Inr {}"
  by (simp add: extract_services_def try_body_def response_of_def)

subsection \<open>Empty extraction\<close>

text \<open>
  C9. If the query returns data but the extracted service set is empty,
  \<open>flag_new_services\<close> returns exactly "No services found in the AWS cost data." and
  stops: the world after the call is the world after the extraction, so nothing was
  loaded, compared or written, and the baseline file is as it was, whatever it holds.
\<close>

theorem empty_extraction_stops:
  assumes "client_call en (fst (window en)) (snd (window en)) = ApiReturns data"
    and "truthy data"
    and "fst (extract_services data w) = Inr {}"
  shows "flag_new_services en region w
           = (Inr ''No services found in the AWS cost data.'', snd (extract_services data w))
       \<and> baseline_file (snd (flag_new_services en region w)) = baseline_file w"
proof -
  obtain w2 where x: "extract_services data w = (Inr {}, w2)"
    using assms(3) by (cases "extract_services data w") auto
  have "flag_new_services en region w = (Inr ''No services found in the AWS cost data.'', w2)"
    using assms(1,2) x by (simp add: flag_new_services_def get_cost_and_usage_def)
  moreover have "baseline_file w2 = baseline_file w"
    using extract_services_baseline [of data w] x by simp
  ultimately show ?thesis using x by simp
qed

theorem empty_extraction_witness:
  "flag_new_services (env_of (ApiReturns (response_of [])) NoFault) ''us-east-1'' (file_with ''5'')
     = (Inr ''No services found in the AWS cost data.'', file_with ''5'')"
  using empty_extraction_stops
    [of "env_of (ApiReturns (response_of [])) NoFault" "response_of []" "file_with ''5''" "''us-east-1''"]
    extract_nothing [of "file_with ''5''"]
  by (simp add: env_of_def response_of_def extract_services_def try_body_def)

subsection \<open>Decoding what the encoder wrote\<close>






















subsection \<open>Baseline store\<close>








subsection \<open>The success path\<close>







subsection \<open>Exceptions that leave the function\<close>

text \<open>
  C6. The claim is that no failure reaches the caller as an exception:
  \<open>extract_services\<close> returns a set for any response shape and
  \<open>flag_new_services\<close> always returns a string. The code catches KeyError only in the
  extraction, and FileNotFoundError and JSONDecodeError only in the load. A group
  whose \<open>Keys\<close> list is empty raises IndexError out of \<open>extract_services\<close> and out of
  \<open>flag_new_services\<close>; a baseline file that holds the valid JSON text \<open>5\<close> raises
  TypeError out of \<open>flag_new_services\<close>.
\<close>

theorem uncaught_exceptions_escape:
  "extract_services (response_of [PDict [(''Keys'', PList [])]]) no_file = (Inl IndexError, no_file)
   \<and> flag_new_services (env_of (ApiReturns (response_of [PDict [(''Keys'', PList [])]])) NoFault)
        ''us-east-1'' no_file
       = (Inl IndexError, no_file)
   \<and> flag_new_services (env_of (ApiReturns (response_of [group_of ''EC2''])) NoFault)
        ''us-east-1'' (file_with ''5'')
       = (Inl TypeError, file_with ''5'')"
proof -
  have x: "extract_services (response_of [PDict [(''Keys'', PList [])]]) w = (Inl IndexError, w)" for w
    by (simp add: extract_services_def try_body_def response_of_def service_name_def)
  have y: "extract_services (response_of [group_of ''EC2'']) w = (Inr {''EC2''}, w)" for w
    by (simp add: extract_services_def try_body_def response_of_def group_of_def service_name_def)
  have five: "json_loads ''5'' = Inr (PInt 5)" by code_simp
  have l: "load_previous_services (file_with ''5'') = (Inl TypeError, file_with ''5'')"
    by (simp add: load_previous_services_def read_baseline_def file_with_def five py_set_def)
  show ?thesis
    using x y l
    by (simp add: flag_new_services_def get_cost_and_usage_def env_of_def response_of_def)
qed

end
